theory Spec2Isabelle
  imports Main "HOL-Library.Sublist"
begin

section \<open>The executor\<close>

text \<open>
  \<^verbatim>\<open>docker.go\<close> works on a \<^verbatim>\<open>*shell.Shell\<close>: it reads and writes \<^verbatim>\<open>sh.Env\<close>,
  asks for the working directory, prints headers and warnings and runs external
  commands. Go strings are byte sequences, so they are \<^typ>\<open>string\<close> here.
\<close>

type_synonym environ = "string \<rightharpoonup> string"
type_synonym error = string
type_synonym argv = "string list"

datatype message = Printed string | Header string | Warning string

text \<open>
  The shell state. \<open>Commands\<close> is the list of external commands run so far, oldest
  first, each with the program name at its head; \<open>Output\<close> collects what was
  printed.
\<close>

record shell =
  Env :: environ
  Wd :: string
  Commands :: "argv list"
  Output :: "message list"

text \<open>
  What lies outside \<^verbatim>\<open>docker.go\<close> and is left open: how \<^verbatim>\<open>Env.GetBool\<close> reads a
  value, what an external command returns (it may depend on the whole shell state at the
  moment of the call), and the standard library's \<^verbatim>\<open>filepath.Rel\<close> and
  \<^verbatim>\<open>os.PathSeparator\<close>.
\<close>

record executor =
  GetBool :: "environ \<Rightarrow> string \<Rightarrow> bool \<Rightarrow> bool"
  RunResult :: "shell \<Rightarrow> argv \<Rightarrow> error option"
  FilepathRel :: "string \<Rightarrow> string \<Rightarrow> error + string"
  PathSeparator :: char

text \<open>
  Modelled from the spec: the package \<^verbatim>\<open>bootstrap/shell\<close> with its environment type
  is not among the sources. The spec gives the environment as a mapping from names to
  values with \<^verbatim>\<open>getEnv(name) -> (value, present)\<close> and \<^verbatim>\<open>setEnv(name, value)\<close>, and
  the executor's \<^verbatim>\<open>run(command, args...) -> error\<close>. A variable that is not present
  reads as the empty string, Go's zero value.
\<close>

definition EnvExists :: "shell \<Rightarrow> string \<Rightarrow> bool" where
  "EnvExists sh k \<longleftrightarrow> Env sh k \<noteq> None"

definition EnvGet :: "shell \<Rightarrow> string \<Rightarrow> string \<times> bool" where
  "EnvGet sh k = (case Env sh k of None \<Rightarrow> ([], False) | Some v \<Rightarrow> (v, True))"

definition EnvGetBool :: "executor \<Rightarrow> shell \<Rightarrow> string \<Rightarrow> bool \<Rightarrow> bool" where
  "EnvGetBool ex sh k d = GetBool ex (Env sh) k d"

definition EnvSet :: "shell \<Rightarrow> string \<Rightarrow> string \<Rightarrow> shell" where
  "EnvSet sh k v = sh\<lparr>Env := (Env sh)(k \<mapsto> v)\<rparr>"

definition Printf :: "shell \<Rightarrow> string \<Rightarrow> shell" where
  "Printf sh s = sh\<lparr>Output := Output sh @ [Printed s]\<rparr>"

definition Headerf :: "shell \<Rightarrow> string \<Rightarrow> shell" where
  "Headerf sh s = sh\<lparr>Output := Output sh @ [Header s]\<rparr>"

definition Warningf :: "shell \<Rightarrow> string \<Rightarrow> shell" where
  "Warningf sh s = sh\<lparr>Output := Output sh @ [Warning s]\<rparr>"

definition Run :: "executor \<Rightarrow> shell \<Rightarrow> argv \<Rightarrow> error option \<times> shell" where
  "Run ex sh cmd = (RunResult ex sh cmd, sh\<lparr>Commands := Commands sh @ [cmd]\<rparr>)"

text \<open>
  Go's \<^verbatim>\<open>if err := f(); err != nil { return err }\<close> followed by the rest of the function:
  an error ends the function with the state reached so far, success goes on.
\<close>

definition andThen ::
    "error option \<times> shell \<Rightarrow> (shell \<Rightarrow> error option \<times> shell) \<Rightarrow> error option \<times> shell" where
  "andThen r rest = (case r of (Some err, sh) \<Rightarrow> (Some err, sh) | (None, sh) \<Rightarrow> rest sh)"

section \<open>The string functions of Go's standard library\<close>

text \<open>
  \<^verbatim>\<open>strings.Fields\<close> splits around runs of white space as \<^verbatim>\<open>unicode.IsSpace\<close> defines it:
  the code points of Unicode's White\_Space property. A Go string holds them in UTF-8;
  these are their encodings: U+0009 to U+000D, U+0020, U+0085, U+00A0, U+1680,
  U+2000 to U+200A, U+2028, U+2029, U+202F, U+205F and U+3000.
\<close>

definition space_runes :: "string list" where
  "space_runes =
     [[CHR 0x09], [CHR 0x0A], [CHR 0x0B], [CHR 0x0C], [CHR 0x0D], [CHR 0x20],
      [CHR 0xC2, CHR 0x85], [CHR 0xC2, CHR 0xA0],
      [CHR 0xE1, CHR 0x9A, CHR 0x80],
      [CHR 0xE2, CHR 0x80, CHR 0x80], [CHR 0xE2, CHR 0x80, CHR 0x81],
      [CHR 0xE2, CHR 0x80, CHR 0x82], [CHR 0xE2, CHR 0x80, CHR 0x83],
      [CHR 0xE2, CHR 0x80, CHR 0x84], [CHR 0xE2, CHR 0x80, CHR 0x85],
      [CHR 0xE2, CHR 0x80, CHR 0x86], [CHR 0xE2, CHR 0x80, CHR 0x87],
      [CHR 0xE2, CHR 0x80, CHR 0x88], [CHR 0xE2, CHR 0x80, CHR 0x89],
      [CHR 0xE2, CHR 0x80, CHR 0x8A],
      [CHR 0xE2, CHR 0x80, CHR 0xA8], [CHR 0xE2, CHR 0x80, CHR 0xA9],
      [CHR 0xE2, CHR 0x80, CHR 0xAF],
      [CHR 0xE2, CHR 0x81, CHR 0x9F],
      [CHR 0xE3, CHR 0x80, CHR 0x80]]"

text \<open>
  The width in bytes of the white space rune a string starts with, and 0 when it starts
  with none. No byte that begins an encoding of a white space rune is a continuation
  byte, and a decoding error consumes one byte: going through the string byte by byte
  and looking for these encodings finds the same runes as Go's decoding loop does.
\<close>

definition spaceWidth :: "string \<Rightarrow> nat" where
  "spaceWidth s = (case find (\<lambda>r. prefix r s) space_runes of None \<Rightarrow> 0 | Some r \<Rightarrow> length r)"

function FieldsFrom :: "string \<Rightarrow> string \<Rightarrow> string list" where
  "FieldsFrom cur [] = (if cur = [] then [] else [cur])"
| "FieldsFrom cur (c # cs) =
     (if spaceWidth (c # cs) = 0 then FieldsFrom (cur @ [c]) cs
      else (if cur = [] then [] else [cur]) @ FieldsFrom [] (drop (spaceWidth (c # cs)) (c # cs)))"
  by pat_completeness auto
termination
  by (relation "measure (\<lambda>(cur, s). length s)") auto

definition Fields :: "string \<Rightarrow> string list" where
  "Fields s = FieldsFrom [] s"

text \<open>\<^verbatim>\<open>strings.Split(s, sep)\<close> for a separator of one byte, as \<^verbatim>\<open>":"\<close> is.\<close>

fun SplitFrom :: "char \<Rightarrow> string \<Rightarrow> string \<Rightarrow> string list" where
  "SplitFrom sep cur [] = [cur]"
| "SplitFrom sep cur (c # cs) =
     (if c = sep then cur # SplitFrom sep [] cs else SplitFrom sep (cur @ [c]) cs)"

definition Split :: "string \<Rightarrow> char \<Rightarrow> string list" where
  "Split s sep = SplitFrom sep [] s"

text \<open>\<^verbatim>\<open>strings.Replace(s, old, new, -1)\<close> for an \<open>old\<close> of one byte, as \<^verbatim>\<open>"-"\<close> is.\<close>

primrec Replace :: "string \<Rightarrow> char \<Rightarrow> string \<Rightarrow> string" where
  "Replace [] old new = []"
| "Replace (c # cs) old new = (if c = old then new else [c]) @ Replace cs old new"

section \<open>docker.go\<close>

definition dockerEnv :: "string list" where
  "dockerEnv =
     [''BUILDKITE_DOCKER_COMPOSE_CONTAINER'',
      ''BUILDKITE_DOCKER_COMPOSE_FILE'',
      ''BUILDKITE_DOCKER'',
      ''BUILDKITE_DOCKER_FILE'',
      ''BUILDKITE_DOCKER_COMPOSE_BUILD_ALL'',
      ''BUILDKITE_DOCKER_COMPOSE_LEAVE_VOLUMES'']"

primrec anyExists :: "shell \<Rightarrow> string list \<Rightarrow> bool" where
  "anyExists sh [] = False"
| "anyExists sh (k # ks) = (if EnvExists sh k then True else anyExists sh ks)"

definition hasDeprecatedDockerIntegration :: "shell \<Rightarrow> bool" where
  "hasDeprecatedDockerIntegration sh = anyExists sh dockerEnv"

text \<open>The two nested loops of \<^verbatim>\<open>runDockerCompose\<close> that append the \<^verbatim>\<open>-f\<close> pairs.\<close>

definition composeFileArgs :: "string \<Rightarrow> argv" where
  "composeFileArgs composeFile =
     foldl (\<lambda>args chunk. foldl (\<lambda>args file. args @ [''-f'', file]) args (Split chunk CHR '':''))
       [] (Fields composeFile)"

text \<open>
  \<^verbatim>\<open>runDockerCompose\<close> builds the slice \<^verbatim>\<open>args\<close> and then calls
  \<^verbatim>\<open>sh.Run("docker-compose", args...)\<close>.
\<close>

definition composeArgs :: "executor \<Rightarrow> shell \<Rightarrow> string \<Rightarrow> argv \<Rightarrow> argv" where
  "composeArgs ex sh projectName commandArgs =
     (let composeFile = fst (EnvGet sh ''BUILDKITE_DOCKER_COMPOSE_FILE'');
          composeFile = (if composeFile = [] then ''docker-compose.yml'' else composeFile);
          args = composeFileArgs composeFile;
          args = args @ [''-p'', projectName];
          args = (if EnvGetBool ex sh ''BUILDKITE_AGENT_DEBUG'' False
                  then args @ [''--verbose''] else args)
      in args @ commandArgs)"

definition runDockerCompose :: "executor \<Rightarrow> shell \<Rightarrow> string \<Rightarrow> argv \<Rightarrow> error option \<times> shell" where
  "runDockerCompose ex sh projectName commandArgs =
     Run ex sh (''docker-compose'' # composeArgs ex sh projectName commandArgs)"

definition runDockerCommand :: "executor \<Rightarrow> shell \<Rightarrow> string \<Rightarrow> error option \<times> shell" where
  "runDockerCommand ex sh scriptPath =
     (let jobId = fst (EnvGet sh ''BUILDKITE_JOB_ID'');
          dockerContainer = ''buildkite_'' @ jobId @ ''_container'';
          dockerImage = ''buildkite_'' @ jobId @ ''_image'';
          dockerFile = fst (EnvGet sh ''BUILDKITE_DOCKER_FILE'');
          dockerFile = (if dockerFile = [] then ''Dockerfile'' else dockerFile);
          sh = EnvSet sh ''DOCKER_CONTAINER'' dockerContainer;
          sh = EnvSet sh ''DOCKER_IMAGE'' dockerImage;
          sh = Printf sh (''~~~ :docker: Building Docker image '' @ dockerImage)
      in andThen (Run ex sh [''docker'', ''build'', ''-f'', dockerFile, ''-t'', dockerImage, ''.''])
           (\<lambda>sh. let sh = Headerf sh '':docker: Running command (in Docker container)''
                 in andThen (Run ex sh [''docker'', ''run'', ''--name'', dockerContainer,
                                        dockerImage, scriptPath])
                      (\<lambda>sh. (None, sh))))"

definition runDockerComposeCommand :: "executor \<Rightarrow> shell \<Rightarrow> string \<Rightarrow> error option \<times> shell" where
  "runDockerComposeCommand ex sh scriptPath =
     (let composeContainer = fst (EnvGet sh ''BUILDKITE_DOCKER_COMPOSE_CONTAINER'');
          jobId = fst (EnvGet sh ''BUILDKITE_JOB_ID'');
          projectName = Replace (''buildkite'' @ jobId) CHR ''-'' [];
          sh = EnvSet sh ''COMPOSE_PROJ_NAME'' projectName;
          sh = Headerf sh '':docker: Building Docker images''
      in andThen
           (if EnvGetBool ex sh ''BUILDKITE_DOCKER_COMPOSE_BUILD_ALL'' False
            then runDockerCompose ex sh projectName [''build'', ''--pull'']
            else runDockerCompose ex sh projectName [''build'', ''--pull'', composeContainer])
           (\<lambda>sh. let sh = Headerf sh '':docker: Running command (in Docker Compose container)''
                 in runDockerCompose ex sh projectName [''run'', composeContainer, scriptPath]))"

definition warnNotSet :: "shell \<Rightarrow> string \<Rightarrow> string \<Rightarrow> shell" where
  "warnNotSet sh k1 k2 =
     Warningf sh (k1 @ '' is set, but without '' @ k2 @
       '', which it requires. You should be able to safely remove this from your pipeline.'')"

definition composeDeprecated :: string where
  "composeDeprecated = ''BUILDKITE_DOCKER_COMPOSE_CONTAINER is set, which is deprecated in Agent v3 and will be removed in v4. Consider using the :docker: docker-compose plugin instead at https://github.com/buildkite-plugins/docker-compose-buildkite-plugin.''"

definition dockerDeprecated :: string where
  "dockerDeprecated = ''BUILDKITE_DOCKER is set, which is deprecated in Agent v3 and will be removed in v4. Consider using the docker plugin instead at https://github.com/buildkite-plugins/docker-buildkite-plugin.''"

text \<open>
  The \<^verbatim>\<open>switch\<close> has six cases, tried in order; the first two return, the other four
  fall out of the \<^verbatim>\<open>switch\<close> to the final \<^verbatim>\<open>errors.New\<close>. The fifth and the sixth
  case are the same in the source and are both kept here.
\<close>

definition runDeprecatedDockerIntegration ::
    "executor \<Rightarrow> shell \<Rightarrow> string \<Rightarrow> error option \<times> shell" where
  "runDeprecatedDockerIntegration ex sh scriptPath =
     (case FilepathRel ex (Wd sh) scriptPath of
        Inl err \<Rightarrow> (Some err, sh)
      | Inr relativePath \<Rightarrow>
          (let relativePathToDot = ''.'' @ [PathSeparator ex] @ relativePath
           in if EnvExists sh ''BUILDKITE_DOCKER_COMPOSE_CONTAINER''
              then runDockerComposeCommand ex (Warningf sh composeDeprecated) relativePathToDot
              else if EnvExists sh ''BUILDKITE_DOCKER''
              then runDockerCommand ex (Warningf sh dockerDeprecated) relativePathToDot
              else
                (Some ''Failed to find any docker env'',
                 if EnvExists sh ''BUILDKITE_DOCKER_COMPOSE_FILE''
                 then warnNotSet sh ''BUILDKITE_DOCKER_COMPOSE_FILE''
                        ''BUILDKITE_DOCKER_COMPOSE_CONTAINER''
                 else if EnvExists sh ''BUILDKITE_DOCKER_COMPOSE_BUILD_ALL''
                 then warnNotSet sh ''BUILDKITE_DOCKER_COMPOSE_BUILD_ALL''
                        ''BUILDKITE_DOCKER_COMPOSE_CONTAINER''
                 else if EnvExists sh ''BUILDKITE_DOCKER_COMPOSE_LEAVE_VOLUMES''
                 then warnNotSet sh ''BUILDKITE_DOCKER_COMPOSE_LEAVE_VOLUMES''
                        ''BUILDKITE_DOCKER_COMPOSE_CONTAINER''
                 else if EnvExists sh ''BUILDKITE_DOCKER_COMPOSE_LEAVE_VOLUMES''
                 then warnNotSet sh ''BUILDKITE_DOCKER_COMPOSE_LEAVE_VOLUMES''
                        ''BUILDKITE_DOCKER_COMPOSE_CONTAINER''
                 else sh)))"

definition tearDownDeprecatedDockerIntegration ::
    "executor \<Rightarrow> shell \<Rightarrow> error option \<times> shell" where
  "tearDownDeprecatedDockerIntegration ex sh =
     (case EnvGet sh ''DOCKER_CONTAINER'' of
        (container, True) \<Rightarrow>
          (let sh = Printf sh ''~~~ Cleaning up Docker containers''
           in andThen (Run ex sh [''docker'', ''rm'', ''-f'', ''-v'', container])
                (\<lambda>sh. (None, sh)))
      | (_, False) \<Rightarrow>
          (case EnvGet sh ''COMPOSE_PROJ_NAME'' of
             (projectName, True) \<Rightarrow>
               (let sh = Printf sh ''~~~ Cleaning up Docker containers'';
                    sh = snd (runDockerCompose ex sh projectName [''kill'']);
                    sh = (if EnvGetBool ex sh ''BUILDKITE_DOCKER_COMPOSE_LEAVE_VOLUMES'' False
                          then snd (runDockerCompose ex sh projectName
                                      [''rm'', ''--force'', ''--all''])
                          else snd (runDockerCompose ex sh projectName
                                      [''rm'', ''--force'', ''--all'', ''-v'']))
                in runDockerCompose ex sh projectName [''down''])
           | (_, False) \<Rightarrow> (None, sh)))"

section \<open>The switch without its sixth case\<close>

text \<open>
  The spec calls the second \<^verbatim>\<open>BUILDKITE_DOCKER_COMPOSE_LEAVE_VOLUMES\<close> case dead code.
  This is \<^verbatim>\<open>runDeprecatedDockerIntegration\<close> with that case removed and nothing else
  changed, to be compared with the function as the source has it.
\<close>

definition runDeprecatedDockerIntegration_five_cases ::
    "executor \<Rightarrow> shell \<Rightarrow> string \<Rightarrow> error option \<times> shell" where
  "runDeprecatedDockerIntegration_five_cases ex sh scriptPath =
     (case FilepathRel ex (Wd sh) scriptPath of
        Inl err \<Rightarrow> (Some err, sh)
      | Inr relativePath \<Rightarrow>
          (let relativePathToDot = ''.'' @ [PathSeparator ex] @ relativePath
           in if EnvExists sh ''BUILDKITE_DOCKER_COMPOSE_CONTAINER''
              then runDockerComposeCommand ex (Warningf sh composeDeprecated) relativePathToDot
              else if EnvExists sh ''BUILDKITE_DOCKER''
              then runDockerCommand ex (Warningf sh dockerDeprecated) relativePathToDot
              else
                (Some ''Failed to find any docker env'',
                 if EnvExists sh ''BUILDKITE_DOCKER_COMPOSE_FILE''
                 then warnNotSet sh ''BUILDKITE_DOCKER_COMPOSE_FILE''
                        ''BUILDKITE_DOCKER_COMPOSE_CONTAINER''
                 else if EnvExists sh ''BUILDKITE_DOCKER_COMPOSE_BUILD_ALL''
                 then warnNotSet sh ''BUILDKITE_DOCKER_COMPOSE_BUILD_ALL''
                        ''BUILDKITE_DOCKER_COMPOSE_CONTAINER''
                 else if EnvExists sh ''BUILDKITE_DOCKER_COMPOSE_LEAVE_VOLUMES''
                 then warnNotSet sh ''BUILDKITE_DOCKER_COMPOSE_LEAVE_VOLUMES''
                        ''BUILDKITE_DOCKER_COMPOSE_CONTAINER''
                 else sh)))"

section \<open>The shape of a compose-file value\<close>

text \<open>
  The spec speaks of a value made of chunks separated by white space, each chunk made of
  paths separated by colons. Such a value is written down here from its parts, to be
  compared with what the loops of \<^verbatim>\<open>runDockerCompose\<close> take out of it: \<open>lead\<close> is the
  white space before the first chunk, and every chunk comes with the white space that
  follows it, each as a list of white space runes.
\<close>

fun joinColon :: "string list \<Rightarrow> string" where
  "joinColon [] = []"
| "joinColon [p] = p"
| "joinColon (p # q # ps) = p @ '':'' @ joinColon (q # ps)"

definition layout :: "string list \<Rightarrow> (string list \<times> string list) list \<Rightarrow> string" where
  "layout lead chunks =
     concat lead @ concat (map (\<lambda>(paths, sep). joinColon paths @ concat sep) chunks)"

text \<open>A string with no white space rune anywhere in it.\<close>

primrec noSpace :: "string \<Rightarrow> bool" where
  "noSpace [] = True"
| "noSpace (c # cs) = (spaceWidth (c # cs) = 0 \<and> noSpace cs)"

text \<open>
  A chunk is a non-empty string whose paths hold neither a colon nor white space; a
  path may be empty as long as the chunk is not.
\<close>

definition chunkOk :: "string list \<Rightarrow> bool" where
  "chunkOk paths \<longleftrightarrow>
     joinColon paths \<noteq> [] \<and> list_all (\<lambda>p. CHR '':'' \<notin> set p \<and> noSpace p) paths"

text \<open>
  Between two chunks there is at least one white space rune; after the last chunk there
  may be none.
\<close>

fun wellFormed :: "(string list \<times> string list) list \<Rightarrow> bool" where
  "wellFormed [] = True"
| "wellFormed [(paths, sep)] = (chunkOk paths \<and> list_all (\<lambda>r. r \<in> set space_runes) sep)"
| "wellFormed ((paths, sep) # c # cs) =
     (chunkOk paths \<and> list_all (\<lambda>r. r \<in> set space_runes) sep \<and> sep \<noteq> [] \<and>
      wellFormed (c # cs))"

text \<open>The continuation bytes of UTF-8, \<^verbatim>\<open>0x80\<close> to \<^verbatim>\<open>0xBF\<close>.\<close>

definition is_cont :: "char \<Rightarrow> bool" where
  "is_cont c \<longleftrightarrow> (128::nat) \<le> of_char c \<and> of_char c < (192::nat)"

text \<open>What follows a string does not begin with a continuation byte.\<close>

definition startsClean :: "string \<Rightarrow> bool" where
  "startsClean rest \<longleftrightarrow> rest = [] \<or> \<not> is_cont (hd rest)"

text \<open>What \<^verbatim>\<open>Fields\<close> emits for the field collected so far when white space ends it.\<close>

definition flush :: "string \<Rightarrow> string list" where
  "flush cur = (if cur = [] then [] else [cur])"

section \<open>An executor and a shell to run the functions on\<close>

text \<open>
  A concrete executor for the examples: booleans are read the way the agent reads them,
  every command succeeds but one \<^verbatim>\<open>docker-compose down\<close>, and a script path below the
  working directory is made relative by dropping the directory.
\<close>

definition exampleExecutor :: executor where
  "exampleExecutor =
     \<lparr>GetBool = (\<lambda>env k d. case env k of None \<Rightarrow> d
                 | Some v \<Rightarrow> if v \<in> set [''on'', ''1'', ''enabled'', ''true''] then True
                            else if v \<in> set [''off'', ''0'', ''disabled'', ''false''] then False
                            else d),
      RunResult = (\<lambda>sh cmd. if cmd = [''docker-compose'', ''-f'', ''docker-compose.yml'',
                                          ''-p'', ''buildkite42'', ''down'']
                               then Some ''exit status 1'' else None),
      FilepathRel = (\<lambda>base targ. if prefix (base @ ''/'') targ
                      then Inr (drop (length base + 1) targ)
                      else Inl ''Rel: can't make relative''),
      PathSeparator = CHR ''/''\<rparr>"

definition exampleShell :: "environ \<Rightarrow> shell" where
  "exampleShell env = \<lparr>Env = env, Wd = ''/work'', Commands = [], Output = []\<rparr>"

text \<open>
  The environments of the spec's scenarios A and B, one with both activators, one with
  several compose files, and one with none of the variables of \<^verbatim>\<open>dockerEnv\<close>.
\<close>

definition scenarioA :: shell where
  "scenarioA = exampleShell [''BUILDKITE_DOCKER'' \<mapsto> ''1'', ''BUILDKITE_JOB_ID'' \<mapsto> ''42'']"

definition scenarioB :: shell where
  "scenarioB = exampleShell [''BUILDKITE_DOCKER_COMPOSE_FILE'' \<mapsto> ''ci.yml'']"

definition bothActivators :: shell where
  "bothActivators =
     exampleShell [''BUILDKITE_DOCKER_COMPOSE_CONTAINER'' \<mapsto> ''app'',
                   ''BUILDKITE_DOCKER'' \<mapsto> ''1'', ''BUILDKITE_JOB_ID'' \<mapsto> ''42'']"

definition composeFiles :: shell where
  "composeFiles =
     exampleShell [''BUILDKITE_DOCKER_COMPOSE_FILE'' \<mapsto> '' a.yml:b.yml  c.yml'']"

definition noVariables :: shell where
  "noVariables = exampleShell [''BUILDKITE_JOB_ID'' \<mapsto> ''42'']"

section \<open>Facts about the executor's operations\<close>

lemma andThen_if: "andThen r rest = (if fst r = None then rest (snd r) else r)"
  by (cases r) (simp add: andThen_def split: option.split)

lemma Run_fst: "fst (Run ex sh cmd) = RunResult ex sh cmd"
  by (simp add: Run_def)

lemma Env_proj:
  "Env (EnvSet sh k v) = (Env sh)(k \<mapsto> v)"
  "Env (Printf sh m) = Env sh"
  "Env (Headerf sh m) = Env sh"
  "Env (Warningf sh m) = Env sh"
  "Env (snd (Run ex sh cmd)) = Env sh"
  by (simp_all add: EnvSet_def Printf_def Headerf_def Warningf_def Run_def)

lemma Commands_proj:
  "Commands (EnvSet sh k v) = Commands sh"
  "Commands (Printf sh m) = Commands sh"
  "Commands (Headerf sh m) = Commands sh"
  "Commands (Warningf sh m) = Commands sh"
  "Commands (snd (Run ex sh cmd)) = Commands sh @ [cmd]"
  by (simp_all add: EnvSet_def Printf_def Headerf_def Warningf_def Run_def)

lemma Output_proj:
  "Output (EnvSet sh k v) = Output sh"
  "Output (Printf sh m) = Output sh @ [Printed m]"
  "Output (Headerf sh m) = Output sh @ [Header m]"
  "Output (Warningf sh m) = Output sh @ [Warning m]"
  "Output (snd (Run ex sh cmd)) = Output sh"
  by (simp_all add: EnvSet_def Printf_def Headerf_def Warningf_def Run_def)

lemma EnvGet_proj:
  "EnvGet (EnvSet sh k v) k' = (if k' = k then (v, True) else EnvGet sh k')"
  "EnvGet (Printf sh m) k' = EnvGet sh k'"
  "EnvGet (Headerf sh m) k' = EnvGet sh k'"
  "EnvGet (Warningf sh m) k' = EnvGet sh k'"
  "EnvGet (snd (Run ex sh cmd)) k' = EnvGet sh k'"
  by (simp_all add: EnvGet_def Env_proj)

lemma EnvGetBool_proj:
  "EnvGetBool ex (Printf sh m) = EnvGetBool ex sh"
  "EnvGetBool ex (Headerf sh m) = EnvGetBool ex sh"
  "EnvGetBool ex (Warningf sh m) = EnvGetBool ex sh"
  "EnvGetBool ex (snd (Run ex' sh cmd)) = EnvGetBool ex sh"
  by (simp_all add: EnvGetBool_def Env_proj fun_eq_iff)

lemma composeArgs_proj:
  "composeArgs ex (Printf sh m) = composeArgs ex sh"
  "composeArgs ex (Headerf sh m) = composeArgs ex sh"
  "composeArgs ex (Warningf sh m) = composeArgs ex sh"
  "composeArgs ex (snd (Run ex' sh cmd)) = composeArgs ex sh"
  by (simp_all add: composeArgs_def EnvGet_proj EnvGetBool_proj fun_eq_iff)

lemma andThen_Env:
  "(\<And>s. Env (snd (rest s)) = Env s) \<Longrightarrow> Env (snd (andThen r rest)) = Env (snd r)"
  by (simp add: andThen_if)

lemma andThen_Commands:
  "Commands (snd (andThen r rest)) =
     (if fst r = None then Commands (snd (rest (snd r))) else Commands (snd r))"
  by (simp add: andThen_if)

lemma andThen_fst:
  "fst (andThen r rest) = (if fst r = None then fst (rest (snd r)) else fst r)"
  by (simp add: andThen_if)

lemma runDockerCompose_Env: "Env (snd (runDockerCompose ex sh p a)) = Env sh"
  by (simp add: runDockerCompose_def Env_proj)

lemma runDockerCompose_Commands:
  "Commands (snd (runDockerCompose ex sh p a)) =
     Commands sh @ [''docker-compose'' # composeArgs ex sh p a]"
  by (simp add: runDockerCompose_def Commands_proj)

lemma runDockerComposeCommand_Env:
  "Env (snd (runDockerComposeCommand ex sh sp)) =
     (Env sh)(''COMPOSE_PROJ_NAME'' \<mapsto>
        Replace (''buildkite'' @ fst (EnvGet sh ''BUILDKITE_JOB_ID'')) CHR ''-'' [])"
  by (simp add: runDockerComposeCommand_def Let_def andThen_Env runDockerCompose_Env Env_proj)

lemma runDockerCommand_Env:
  "Env (snd (runDockerCommand ex sh sp)) =
     (Env sh)(''DOCKER_CONTAINER'' \<mapsto>
                ''buildkite_'' @ fst (EnvGet sh ''BUILDKITE_JOB_ID'') @ ''_container'',
              ''DOCKER_IMAGE'' \<mapsto>
                ''buildkite_'' @ fst (EnvGet sh ''BUILDKITE_JOB_ID'') @ ''_image'')"
  by (simp add: runDockerCommand_def Let_def andThen_Env Env_proj)

lemma runDockerComposeCommand_Commands:
  "\<exists>args rest. Commands (snd (runDockerComposeCommand ex sh sp)) =
     Commands sh @ (''docker-compose'' # args) # rest \<and>
     (\<forall>c \<in> set rest. hd c = ''docker-compose'')"
  by (simp add: runDockerComposeCommand_def Let_def andThen_Commands runDockerCompose_Commands
      Commands_proj)

lemma runDockerCommand_first:
  "\<exists>args rest. Commands (snd (runDockerCommand ex sh sp)) =
     Commands sh @ (''docker'' # args) # rest"
  by (simp add: runDockerCommand_def Let_def andThen_Commands Commands_proj)

lemma runDeprecatedDockerIntegration_Env:
  "Env (snd (runDeprecatedDockerIntegration ex sh scriptPath)) =
     (case FilepathRel ex (Wd sh) scriptPath of
        Inl err \<Rightarrow> Env sh
      | Inr rel \<Rightarrow>
          if EnvExists sh ''BUILDKITE_DOCKER_COMPOSE_CONTAINER''
          then (Env sh)(''COMPOSE_PROJ_NAME'' \<mapsto>
                  Replace (''buildkite'' @ fst (EnvGet sh ''BUILDKITE_JOB_ID'')) CHR ''-'' [])
          else if EnvExists sh ''BUILDKITE_DOCKER''
          then (Env sh)(''DOCKER_CONTAINER'' \<mapsto>
                  ''buildkite_'' @ fst (EnvGet sh ''BUILDKITE_JOB_ID'') @ ''_container'',
                ''DOCKER_IMAGE'' \<mapsto>
                  ''buildkite_'' @ fst (EnvGet sh ''BUILDKITE_JOB_ID'') @ ''_image'')
          else Env sh)"
  by (simp add: runDeprecatedDockerIntegration_def Let_def runDockerComposeCommand_Env
      runDockerCommand_Env Env_proj EnvGet_proj warnNotSet_def split: sum.split)

lemma Replace_empty: "Replace s old [] = filter (\<lambda>c. c \<noteq> old) s"
  by (induction s) simp_all

lemma default_file_args:
  "composeFileArgs ''docker-compose.yml'' = [''-f'', ''docker-compose.yml'']"
  by (simp add: composeFileArgs_def Fields_def spaceWidth_def space_runes_def Split_def)

lemma if_twice: "(if c then a else if c then a else b) = (if c then a else b)"
  by simp

lemma anyExists_False: "(\<forall>k \<in> set ks. Env sh k = None) \<Longrightarrow> \<not> anyExists sh ks"
  by (induction ks) (simp_all add: EnvExists_def)

section \<open>Mode selection\<close>

text \<open>
  Claim C1. When both \<^verbatim>\<open>BUILDKITE_DOCKER_COMPOSE_CONTAINER\<close> and \<^verbatim>\<open>BUILDKITE_DOCKER\<close> are
  present and the script path resolves, \<^verbatim>\<open>runDeprecatedDockerIntegration\<close> is
  \<^verbatim>\<open>runDockerComposeCommand\<close> after the compose deprecation warning, and it is not
  \<^verbatim>\<open>runDockerCommand\<close>: every command it runs is a \<^verbatim>\<open>docker-compose\<close> command, there is
  at least one, and the only variable written is \<^verbatim>\<open>COMPOSE_PROJ_NAME\<close>.
\<close>

theorem compose_precedence:
  assumes "FilepathRel ex (Wd sh) scriptPath = Inr rel"
    and "Env sh ''BUILDKITE_DOCKER_COMPOSE_CONTAINER'' = Some container"
    and "Env sh ''BUILDKITE_DOCKER'' = Some flag"
  shows "runDeprecatedDockerIntegration ex sh scriptPath =
           runDockerComposeCommand ex (Warningf sh composeDeprecated)
             (''.'' @ [PathSeparator ex] @ rel) \<and>
         runDeprecatedDockerIntegration ex sh scriptPath \<noteq>
           runDockerCommand ex (Warningf sh dockerDeprecated)
             (''.'' @ [PathSeparator ex] @ rel) \<and>
         (\<exists>args rest.
            Commands (snd (runDeprecatedDockerIntegration ex sh scriptPath)) =
              Commands sh @ (''docker-compose'' # args) # rest \<and>
            (\<forall>c \<in> set rest. hd c = ''docker-compose'')) \<and>
         Env (snd (runDeprecatedDockerIntegration ex sh scriptPath)) =
           (Env sh)(''COMPOSE_PROJ_NAME'' \<mapsto>
              Replace (''buildkite'' @ fst (EnvGet sh ''BUILDKITE_JOB_ID'')) CHR ''-'' [])"
proof -
  let ?path = "''.'' @ [PathSeparator ex] @ rel"
  let ?compose = "runDockerComposeCommand ex (Warningf sh composeDeprecated) ?path"
  let ?docker = "runDockerCommand ex (Warningf sh dockerDeprecated) ?path"
  have sel: "runDeprecatedDockerIntegration ex sh scriptPath = ?compose"
    using assms by (simp add: runDeprecatedDockerIntegration_def EnvExists_def)
  obtain args rest where c: "Commands (snd ?compose) =
      Commands sh @ (''docker-compose'' # args) # rest"
    and r: "\<forall>c \<in> set rest. hd c = ''docker-compose''"
    using runDockerComposeCommand_Commands [of ex "Warningf sh composeDeprecated" ?path]
    by (auto simp: Commands_proj)
  obtain args' rest' where d: "Commands (snd ?docker) =
      Commands sh @ (''docker'' # args') # rest'"
    using runDockerCommand_first [of ex "Warningf sh dockerDeprecated" ?path]
    by (auto simp: Commands_proj)
  have ne: "?compose \<noteq> ?docker"
  proof
    assume "?compose = ?docker"
    then have "Commands (snd ?compose) = Commands (snd ?docker)" by simp
    then show False unfolding c d by simp
  qed
  have e: "Env (snd ?compose) = (Env sh)(''COMPOSE_PROJ_NAME'' \<mapsto>
              Replace (''buildkite'' @ fst (EnvGet sh ''BUILDKITE_JOB_ID'')) CHR ''-'' [])"
    by (simp add: runDockerComposeCommand_Env Env_proj EnvGet_proj)
  show ?thesis
    unfolding sel using ne c r e by blast
qed


theorem compose_precedence_witness:
  "FilepathRel exampleExecutor (Wd bothActivators) ''/work/script.sh'' = Inr ''script.sh'' \<and>
   Env bothActivators ''BUILDKITE_DOCKER_COMPOSE_CONTAINER'' = Some ''app'' \<and>
   Env bothActivators ''BUILDKITE_DOCKER'' = Some ''1'' \<and>
   runDeprecatedDockerIntegration exampleExecutor bothActivators ''/work/script.sh'' =
     runDockerComposeCommand exampleExecutor (Warningf bothActivators composeDeprecated)
       ''./script.sh''"
proof -
  have h1: "FilepathRel exampleExecutor (Wd bothActivators) ''/work/script.sh'' =
      Inr ''script.sh''"
    by (simp add: exampleExecutor_def bothActivators_def exampleShell_def)
  have h2: "Env bothActivators ''BUILDKITE_DOCKER_COMPOSE_CONTAINER'' = Some ''app''"
    by (simp add: bothActivators_def exampleShell_def)
  have h3: "Env bothActivators ''BUILDKITE_DOCKER'' = Some ''1''"
    by (simp add: bothActivators_def exampleShell_def)
  have p: "''.'' @ [PathSeparator exampleExecutor] @ ''script.sh'' = ''./script.sh''"
    by (simp add: exampleExecutor_def)
  from compose_precedence [OF h1 h2 h3] h1 h2 h3 show ?thesis
    unfolding p by blast
qed

text \<open>
  Claim C3. Scenario A: with \<^verbatim>\<open>BUILDKITE_DOCKER=1\<close>, \<^verbatim>\<open>BUILDKITE_JOB_ID=42\<close>, no compose
  container and no Dockerfile name, a script that resolves to \<^verbatim>\<open>script.sh\<close> and a
  \<^verbatim>\<open>docker build\<close> that succeeds, the commands run are exactly
  \<^verbatim>\<open>docker build -f Dockerfile -t buildkite_42_image .\<close> and then
  \<^verbatim>\<open>docker run --name buildkite_42_container buildkite_42_image ./script.sh\<close>, and
  afterwards \<^verbatim>\<open>DOCKER_CONTAINER\<close> is \<^verbatim>\<open>buildkite_42_container\<close>.
\<close>

theorem scenario_A:
  assumes "Env sh ''BUILDKITE_DOCKER'' = Some ''1''"
    and "Env sh ''BUILDKITE_JOB_ID'' = Some ''42''"
    and "Env sh ''BUILDKITE_DOCKER_COMPOSE_CONTAINER'' = None"
    and "Env sh ''BUILDKITE_DOCKER_FILE'' = None \<or> Env sh ''BUILDKITE_DOCKER_FILE'' = Some []"
    and "FilepathRel ex (Wd sh) scriptPath = Inr ''script.sh''"
    and "PathSeparator ex = CHR ''/''"
    and "RunResult ex
           (Printf (EnvSet (EnvSet (Warningf sh dockerDeprecated)
                      ''DOCKER_CONTAINER'' ''buildkite_42_container'')
                      ''DOCKER_IMAGE'' ''buildkite_42_image'')
              ''~~~ :docker: Building Docker image buildkite_42_image'')
           [''docker'', ''build'', ''-f'', ''Dockerfile'', ''-t'', ''buildkite_42_image'', ''.'']
         = None"
  shows "Commands (snd (runDeprecatedDockerIntegration ex sh scriptPath)) =
           Commands sh @
           [[''docker'', ''build'', ''-f'', ''Dockerfile'', ''-t'', ''buildkite_42_image'', ''.''],
            [''docker'', ''run'', ''--name'', ''buildkite_42_container'', ''buildkite_42_image'',
             ''./script.sh'']] \<and>
         Env (snd (runDeprecatedDockerIntegration ex sh scriptPath)) ''DOCKER_CONTAINER'' =
           Some ''buildkite_42_container''"
proof -
  have sel: "runDeprecatedDockerIntegration ex sh scriptPath =
      runDockerCommand ex (Warningf sh dockerDeprecated) ''./script.sh''"
    using assms(1,3,5,6) by (simp add: runDeprecatedDockerIntegration_def EnvExists_def)
  have j: "fst (EnvGet sh ''BUILDKITE_JOB_ID'') = ''42''"
    using assms(2) by (simp add: EnvGet_def)
  have f: "fst (EnvGet sh ''BUILDKITE_DOCKER_FILE'') = []"
    using assms(4) by (auto simp: EnvGet_def)
  have c: "Commands (snd (runDockerCommand ex (Warningf sh dockerDeprecated) ''./script.sh'')) =
           Commands sh @
           [[''docker'', ''build'', ''-f'', ''Dockerfile'', ''-t'', ''buildkite_42_image'', ''.''],
            [''docker'', ''run'', ''--name'', ''buildkite_42_container'', ''buildkite_42_image'',
             ''./script.sh'']]"
    using assms(7)
    by (simp add: runDockerCommand_def Let_def andThen_Commands Commands_proj Run_fst
        EnvGet_proj j f)
  have e: "Env (snd (runDockerCommand ex (Warningf sh dockerDeprecated) ''./script.sh''))
             ''DOCKER_CONTAINER'' = Some ''buildkite_42_container''"
    by (simp add: runDockerCommand_Env EnvGet_proj j)
  show ?thesis unfolding sel using c e by (rule conjI)
qed

theorem scenario_A_witness:
  "Env scenarioA ''BUILDKITE_DOCKER'' = Some ''1'' \<and>
   Env scenarioA ''BUILDKITE_JOB_ID'' = Some ''42'' \<and>
   Env scenarioA ''BUILDKITE_DOCKER_COMPOSE_CONTAINER'' = None \<and>
   Env scenarioA ''BUILDKITE_DOCKER_FILE'' = None \<and>
   FilepathRel exampleExecutor (Wd scenarioA) ''/work/script.sh'' = Inr ''script.sh'' \<and>
   PathSeparator exampleExecutor = CHR ''/'' \<and>
   Commands (snd (runDeprecatedDockerIntegration exampleExecutor scenarioA ''/work/script.sh'')) =
     [[''docker'', ''build'', ''-f'', ''Dockerfile'', ''-t'', ''buildkite_42_image'', ''.''],
      [''docker'', ''run'', ''--name'', ''buildkite_42_container'', ''buildkite_42_image'',
       ''./script.sh'']] \<and>
   Env (snd (runDeprecatedDockerIntegration exampleExecutor scenarioA ''/work/script.sh''))
     ''DOCKER_CONTAINER'' = Some ''buildkite_42_container''"
proof -
  have h1: "Env scenarioA ''BUILDKITE_DOCKER'' = Some ''1''"
    by (simp add: scenarioA_def exampleShell_def)
  have h2: "Env scenarioA ''BUILDKITE_JOB_ID'' = Some ''42''"
    by (simp add: scenarioA_def exampleShell_def)
  have h3: "Env scenarioA ''BUILDKITE_DOCKER_COMPOSE_CONTAINER'' = None"
    by (simp add: scenarioA_def exampleShell_def)
  have h4: "Env scenarioA ''BUILDKITE_DOCKER_FILE'' = None"
    by (simp add: scenarioA_def exampleShell_def)
  have h5: "FilepathRel exampleExecutor (Wd scenarioA) ''/work/script.sh'' = Inr ''script.sh''"
    by (simp add: exampleExecutor_def scenarioA_def exampleShell_def)
  have h6: "PathSeparator exampleExecutor = CHR ''/''"
    by (simp add: exampleExecutor_def)
  have h7: "\<And>s. RunResult exampleExecutor s
      [''docker'', ''build'', ''-f'', ''Dockerfile'', ''-t'', ''buildkite_42_image'', ''.''] = None"
    by (simp add: exampleExecutor_def)
  have c: "Commands scenarioA = []"
    by (simp add: scenarioA_def exampleShell_def)
  from scenario_A [OF h1 h2 h3 disjI1 [OF h4] h5 h6 h7] h1 h2 h3 h4 h5 h6 c
  show ?thesis by simp
qed


text \<open>
  Claim C6, amended. When a dependent compose flag is set, neither activator is, and the
  script path resolves, \<^verbatim>\<open>runDeprecatedDockerIntegration\<close> prints one warning that names
  the first set flag (in the order file, build-all, leave-volumes) and
  \<^verbatim>\<open>BUILDKITE_DOCKER_COMPOSE_CONTAINER\<close>, runs no command, changes no variable, and
  returns the error whose message is \<^verbatim>\<open>Failed to find any docker env\<close>. The message is
  not \<^verbatim>\<open>no valid legacy docker configuration found\<close>, as the counterexample shows.
\<close>

theorem misconfigured_flag:
  assumes "FilepathRel ex (Wd sh) scriptPath = Inr rel"
    and "Env sh ''BUILDKITE_DOCKER_COMPOSE_CONTAINER'' = None"
    and "Env sh ''BUILDKITE_DOCKER'' = None"
    and "EnvExists sh ''BUILDKITE_DOCKER_COMPOSE_FILE'' \<or>
         EnvExists sh ''BUILDKITE_DOCKER_COMPOSE_BUILD_ALL'' \<or>
         EnvExists sh ''BUILDKITE_DOCKER_COMPOSE_LEAVE_VOLUMES''"
  shows "fst (runDeprecatedDockerIntegration ex sh scriptPath) =
           Some ''Failed to find any docker env'' \<and>
         Commands (snd (runDeprecatedDockerIntegration ex sh scriptPath)) = Commands sh \<and>
         Env (snd (runDeprecatedDockerIntegration ex sh scriptPath)) = Env sh \<and>
         Output (snd (runDeprecatedDockerIntegration ex sh scriptPath)) =
           Output sh @
           [Warning
             ((if EnvExists sh ''BUILDKITE_DOCKER_COMPOSE_FILE''
               then ''BUILDKITE_DOCKER_COMPOSE_FILE''
               else if EnvExists sh ''BUILDKITE_DOCKER_COMPOSE_BUILD_ALL''
               then ''BUILDKITE_DOCKER_COMPOSE_BUILD_ALL''
               else ''BUILDKITE_DOCKER_COMPOSE_LEAVE_VOLUMES'') @
              '' is set, but without '' @ ''BUILDKITE_DOCKER_COMPOSE_CONTAINER'' @
              '', which it requires. You should be able to safely remove this from your pipeline.'')]"
  using assms
  by (auto simp: runDeprecatedDockerIntegration_def EnvExists_def warnNotSet_def Commands_proj
      Env_proj Output_proj)

theorem misconfigured_flag_witness:
  "FilepathRel exampleExecutor (Wd scenarioB) ''/work/script.sh'' = Inr ''script.sh'' \<and>
   Env scenarioB ''BUILDKITE_DOCKER_COMPOSE_CONTAINER'' = None \<and>
   Env scenarioB ''BUILDKITE_DOCKER'' = None \<and>
   EnvExists scenarioB ''BUILDKITE_DOCKER_COMPOSE_FILE'' \<and>
   fst (runDeprecatedDockerIntegration exampleExecutor scenarioB ''/work/script.sh'') =
     Some ''Failed to find any docker env'' \<and>
   Commands (snd (runDeprecatedDockerIntegration exampleExecutor scenarioB ''/work/script.sh'')) = []"
proof -
  have h1: "FilepathRel exampleExecutor (Wd scenarioB) ''/work/script.sh'' = Inr ''script.sh''"
    by (simp add: exampleExecutor_def scenarioB_def exampleShell_def)
  have h2: "Env scenarioB ''BUILDKITE_DOCKER_COMPOSE_CONTAINER'' = None"
    by (simp add: scenarioB_def exampleShell_def)
  have h3: "Env scenarioB ''BUILDKITE_DOCKER'' = None"
    by (simp add: scenarioB_def exampleShell_def)
  have h4: "EnvExists scenarioB ''BUILDKITE_DOCKER_COMPOSE_FILE''"
    by (simp add: EnvExists_def scenarioB_def exampleShell_def)
  have c: "Commands scenarioB = []"
    by (simp add: scenarioB_def exampleShell_def)
  from misconfigured_flag [OF h1 h2 h3 disjI1 [OF h4]] h1 h2 h3 h4 c
  show ?thesis by simp
qed

theorem misconfigured_flag_counterexample:
  "EnvExists scenarioB ''BUILDKITE_DOCKER_COMPOSE_FILE'' \<and>
   \<not> EnvExists scenarioB ''BUILDKITE_DOCKER_COMPOSE_CONTAINER'' \<and>
   \<not> EnvExists scenarioB ''BUILDKITE_DOCKER'' \<and>
   fst (runDeprecatedDockerIntegration exampleExecutor scenarioB ''/work/script.sh'') \<noteq>
     Some ''no valid legacy docker configuration found''"
  by (simp add: runDeprecatedDockerIntegration_def EnvExists_def scenarioB_def exampleShell_def
      exampleExecutor_def)

text \<open>
  Claim C7, amended. When none of the six variables of \<^verbatim>\<open>dockerEnv\<close> is set,
  \<^verbatim>\<open>hasDeprecatedDockerIntegration\<close> is false, and \<^verbatim>\<open>runDeprecatedDockerIntegration\<close>, if
  it is called all the same, runs no command, prints nothing and changes no variable,
  but it returns an error: that of the path resolution, or \<^verbatim>\<open>Failed to find any docker env\<close>.
  It does not return success, as the counterexample shows.
\<close>

theorem no_variable_set:
  assumes "\<forall>k \<in> set dockerEnv. Env sh k = None"
  shows "\<not> hasDeprecatedDockerIntegration sh \<and>
         Commands (snd (runDeprecatedDockerIntegration ex sh scriptPath)) = Commands sh \<and>
         Env (snd (runDeprecatedDockerIntegration ex sh scriptPath)) = Env sh \<and>
         Output (snd (runDeprecatedDockerIntegration ex sh scriptPath)) = Output sh \<and>
         fst (runDeprecatedDockerIntegration ex sh scriptPath) =
           Some (case FilepathRel ex (Wd sh) scriptPath of
                   Inl err \<Rightarrow> err
                 | Inr rel \<Rightarrow> ''Failed to find any docker env'')"
proof -
  have e: "\<not> EnvExists sh ''BUILDKITE_DOCKER_COMPOSE_CONTAINER''"
    "\<not> EnvExists sh ''BUILDKITE_DOCKER_COMPOSE_FILE''"
    "\<not> EnvExists sh ''BUILDKITE_DOCKER''"
    "\<not> EnvExists sh ''BUILDKITE_DOCKER_COMPOSE_BUILD_ALL''"
    "\<not> EnvExists sh ''BUILDKITE_DOCKER_COMPOSE_LEAVE_VOLUMES''"
    using assms by (simp_all add: dockerEnv_def EnvExists_def)
  have h: "\<not> hasDeprecatedDockerIntegration sh"
    unfolding hasDeprecatedDockerIntegration_def using assms by (rule anyExists_False)
  have r: "runDeprecatedDockerIntegration ex sh scriptPath =
      (Some (case FilepathRel ex (Wd sh) scriptPath of
               Inl err \<Rightarrow> err
             | Inr rel \<Rightarrow> ''Failed to find any docker env''), sh)"
    by (simp add: runDeprecatedDockerIntegration_def e split: sum.split)
  show ?thesis unfolding r using h by simp
qed

theorem no_variable_set_witness:
  "\<not> hasDeprecatedDockerIntegration noVariables \<and>
   Commands (snd (runDeprecatedDockerIntegration exampleExecutor noVariables
                    ''/work/script.sh'')) = [] \<and>
   fst (runDeprecatedDockerIntegration exampleExecutor noVariables ''/work/script.sh'') =
     Some ''Failed to find any docker env''"
proof -
  have h: "\<forall>k \<in> set dockerEnv. Env noVariables k = None"
    by (simp add: dockerEnv_def noVariables_def exampleShell_def)
  have c: "Commands noVariables = []"
    by (simp add: noVariables_def exampleShell_def)
  have p: "FilepathRel exampleExecutor (Wd noVariables) ''/work/script.sh'' = Inr ''script.sh''"
    by (simp add: exampleExecutor_def noVariables_def exampleShell_def)
  from no_variable_set [OF h, of exampleExecutor "''/work/script.sh''"] h c p
  show ?thesis by simp
qed

theorem no_variable_set_counterexample:
  "\<not> hasDeprecatedDockerIntegration noVariables \<and>
   Commands (snd (runDeprecatedDockerIntegration exampleExecutor noVariables
                    ''/work/script.sh'')) = [] \<and>
   fst (runDeprecatedDockerIntegration exampleExecutor noVariables ''/work/script.sh'') \<noteq> None"
  by (simp add: runDeprecatedDockerIntegration_def hasDeprecatedDockerIntegration_def
      dockerEnv_def EnvExists_def noVariables_def exampleShell_def exampleExecutor_def)

section \<open>The markers\<close>

text \<open>
  Claim C8. From a state where neither \<^verbatim>\<open>DOCKER_CONTAINER\<close> nor \<^verbatim>\<open>COMPOSE_PROJ_NAME\<close> is
  set, one call of \<^verbatim>\<open>runDeprecatedDockerIntegration\<close> never leaves both of them set.
\<close>

theorem markers_exclusive:
  assumes "Env sh ''DOCKER_CONTAINER'' = None" and "Env sh ''COMPOSE_PROJ_NAME'' = None"
  shows "\<not> (Env (snd (runDeprecatedDockerIntegration ex sh scriptPath)) ''DOCKER_CONTAINER'' \<noteq> None \<and>
            Env (snd (runDeprecatedDockerIntegration ex sh scriptPath)) ''COMPOSE_PROJ_NAME'' \<noteq> None)"
  using assms
  by (simp add: runDeprecatedDockerIntegration_Env split: sum.split)

theorem markers_exclusive_witness:
  "Env scenarioA ''DOCKER_CONTAINER'' = None \<and> Env scenarioA ''COMPOSE_PROJ_NAME'' = None \<and>
   \<not> (Env (snd (runDeprecatedDockerIntegration exampleExecutor scenarioA ''/work/script.sh''))
          ''DOCKER_CONTAINER'' \<noteq> None \<and>
        Env (snd (runDeprecatedDockerIntegration exampleExecutor scenarioA ''/work/script.sh''))
          ''COMPOSE_PROJ_NAME'' \<noteq> None)"
proof -
  have h1: "Env scenarioA ''DOCKER_CONTAINER'' = None"
    by (simp add: scenarioA_def exampleShell_def)
  have h2: "Env scenarioA ''COMPOSE_PROJ_NAME'' = None"
    by (simp add: scenarioA_def exampleShell_def)
  from markers_exclusive [OF h1 h2] h1 h2 show ?thesis by blast
qed

text \<open>
  Claim C9. The value \<^verbatim>\<open>runDockerComposeCommand\<close> writes to \<^verbatim>\<open>COMPOSE_PROJ_NAME\<close> is
  \<^verbatim>\<open>buildkite\<close> followed by the job id without its hyphens; for the job id
  \<^verbatim>\<open>abc-123-def\<close> it is \<^verbatim>\<open>buildkiteabc123def\<close>.
\<close>

theorem project_name:
  "(Env sh ''BUILDKITE_JOB_ID'' = Some jobId \<longrightarrow>
      Env (snd (runDockerComposeCommand ex sh scriptPath)) ''COMPOSE_PROJ_NAME'' =
        Some (''buildkite'' @ filter (\<lambda>c. c \<noteq> CHR ''-'') jobId)) \<and>
   (Env sh ''BUILDKITE_JOB_ID'' = Some ''abc-123-def'' \<longrightarrow>
      Env (snd (runDockerComposeCommand ex sh scriptPath)) ''COMPOSE_PROJ_NAME'' =
        Some ''buildkiteabc123def'')"
  by (simp add: runDockerComposeCommand_Env EnvGet_def Replace_empty)

theorem project_name_witness:
  "Env (exampleShell [''BUILDKITE_JOB_ID'' \<mapsto> ''abc-123-def'']) ''BUILDKITE_JOB_ID'' =
     Some ''abc-123-def'' \<and>
   Env (snd (runDockerComposeCommand exampleExecutor
              (exampleShell [''BUILDKITE_JOB_ID'' \<mapsto> ''abc-123-def'']) ''./script.sh''))
     ''COMPOSE_PROJ_NAME'' = Some ''buildkiteabc123def''"
proof -
  have h: "Env (exampleShell [''BUILDKITE_JOB_ID'' \<mapsto> ''abc-123-def'']) ''BUILDKITE_JOB_ID'' =
     Some ''abc-123-def''"
    by (simp add: exampleShell_def)
  from project_name [of "exampleShell [''BUILDKITE_JOB_ID'' \<mapsto> ''abc-123-def'']"
      "''abc-123-def''" exampleExecutor "''./script.sh''"] h
  show ?thesis by blast
qed

text \<open>
  Claim C10. The sixth case of the \<^verbatim>\<open>switch\<close> is never reached: the function without it
  returns the same error and the same state on every input.
\<close>

theorem five_cases_same:
  "runDeprecatedDockerIntegration_five_cases ex sh scriptPath =
   runDeprecatedDockerIntegration ex sh scriptPath"
  unfolding runDeprecatedDockerIntegration_five_cases_def runDeprecatedDockerIntegration_def
    if_twice
  by (rule refl)

section \<open>White space runes\<close>

lemma space_rune_bytes:
  assumes "r \<in> set space_runes"
  shows "r \<noteq> []" and "\<not> is_cont (hd r)" and "hd r \<noteq> CHR '':''"
    and "\<forall>c \<in> set (tl r). is_cont c"
  using assms unfolding space_runes_def is_cont_def by auto

lemma space_rune_length:
  "r \<in> set space_runes \<Longrightarrow>
     length r = (if (of_char (hd r) :: nat) < 128 then 1 else if hd r = CHR 0xC2 then 2 else 3)"
  unfolding space_runes_def by auto

lemma space_rune_prefix_free:
  assumes "r \<in> set space_runes" and "r' \<in> set space_runes" and "prefix r r'"
  shows "r = r'"
proof -
  from assms(3) obtain us where us: "r' = r @ us" by (auto simp: prefix_def)
  have "r \<noteq> []" using assms(1) by (rule space_rune_bytes(1))
  with us have "hd r' = hd r" by simp
  then have "length r' = length r"
    using space_rune_length [OF assms(1)] space_rune_length [OF assms(2)] by simp
  with us show ?thesis by simp
qed

lemma spaceWidth_0_iff: "spaceWidth s = 0 \<longleftrightarrow> (\<forall>r \<in> set space_runes. \<not> prefix r s)"
proof (cases "find (\<lambda>r. prefix r s) space_runes")
  case None
  then have "spaceWidth s = 0" by (simp add: spaceWidth_def)
  moreover from None have "\<forall>r \<in> set space_runes. \<not> prefix r s"
    by (simp add: find_None_iff)
  ultimately show ?thesis by simp
next
  case (Some r)
  then have "r \<in> set space_runes" "prefix r s"
    by (auto simp: find_Some_iff)
  moreover from this Some have "spaceWidth s \<noteq> 0"
    using space_rune_bytes(1) [of r] by (simp add: spaceWidth_def)
  ultimately show ?thesis by blast
qed

lemma spaceWidth_rune:
  assumes "r \<in> set space_runes"
  shows "spaceWidth (r @ rest) = length r"
proof -
  have "\<exists>x. x \<in> set space_runes \<and> prefix x (r @ rest)"
    using assms by auto
  then obtain r' where f: "find (\<lambda>x. prefix x (r @ rest)) space_runes = Some r'"
    by (cases "find (\<lambda>x. prefix x (r @ rest)) space_runes") (auto simp: find_None_iff)
  then have r': "r' \<in> set space_runes" "prefix r' (r @ rest)"
    by (auto simp: find_Some_iff)
  have "prefix r (r @ rest)" by simp
  with r'(2) have "prefix r r' \<or> prefix r' r"
    by (rule prefix_same_cases [THEN disjE]) auto
  with assms r'(1) have "r' = r"
    by (auto dest: space_rune_prefix_free)
  with f show ?thesis by (simp add: spaceWidth_def)
qed

lemma spaceWidth_boundary:
  assumes "q \<noteq> []" and "spaceWidth q = 0" and "startsClean rest"
  shows "spaceWidth (q @ rest) = 0"
  unfolding spaceWidth_0_iff
proof
  fix r assume r: "r \<in> set space_runes"
  show "\<not> prefix r (q @ rest)"
  proof
    assume "prefix r (q @ rest)"
    then have "prefix r q \<or> (\<exists>us. r = q @ us \<and> prefix us rest)"
      by (simp add: prefix_append)
    moreover have np: "\<not> prefix r q"
      using assms(2) r by (simp add: spaceWidth_0_iff)
    ultimately obtain us where us: "r = q @ us" "prefix us rest" by blast
    with np have "us \<noteq> []" by auto
    with us(2) have "rest \<noteq> []" "hd us = hd rest"
      by (auto simp: prefix_def)
    moreover have "hd us \<in> set (tl r)"
      using us(1) assms(1) \<open>us \<noteq> []\<close> by (cases q) auto
    ultimately show False
      using space_rune_bytes(4) [OF r] assms(3) by (auto simp: startsClean_def)
  qed
qed


section \<open>Fields takes the chunks out of a value\<close>

lemma startsClean_simps:
  "startsClean []"
  "r \<in> set space_runes \<Longrightarrow> startsClean (r @ rest)"
  "startsClean (CHR '':'' # rest)"
  using space_rune_bytes(1,2)
  by (auto simp: startsClean_def is_cont_def)

lemma FieldsFrom_noSpace:
  "noSpace p \<Longrightarrow> startsClean rest \<Longrightarrow> FieldsFrom cur (p @ rest) = FieldsFrom (cur @ p) rest"
proof (induction p arbitrary: cur)
  case Nil
  then show ?case by simp
next
  case (Cons c cs)
  from Cons.prems have "spaceWidth ((c # cs) @ rest) = 0"
    by (intro spaceWidth_boundary) simp_all
  with Cons show ?case by simp
qed

lemma FieldsFrom_rune:
  assumes "r \<in> set space_runes"
  shows "FieldsFrom cur (r @ rest) = flush cur @ FieldsFrom [] rest"
proof -
  from space_rune_bytes(1) [OF assms] obtain c cs where r: "r = c # cs"
    by (cases r) auto
  have w: "spaceWidth (c # cs @ rest) = length r"
    using spaceWidth_rune [OF assms, of rest] r by simp
  have "drop (length r) (c # cs @ rest) = rest"
    using r by simp
  with w r show ?thesis
    by (simp add: flush_def)
qed

lemma FieldsFrom_runes:
  "list_all (\<lambda>r. r \<in> set space_runes) sep \<Longrightarrow>
     FieldsFrom cur (concat sep @ rest) =
       (if sep = [] then FieldsFrom cur rest else flush cur @ FieldsFrom [] rest)"
proof (induction sep arbitrary: cur)
  case Nil
  then show ?case by simp
next
  case (Cons r rs)
  then show ?case
    by (simp add: FieldsFrom_rune flush_def)
qed

lemma noSpace_append:
  "noSpace p \<Longrightarrow> noSpace q \<Longrightarrow> startsClean q \<Longrightarrow> noSpace (p @ q)"
proof (induction p)
  case Nil
  then show ?case by simp
next
  case (Cons c cs)
  from Cons.prems have "spaceWidth ((c # cs) @ q) = 0"
    by (intro spaceWidth_boundary) simp_all
  with Cons show ?case by simp
qed

lemma spaceWidth_colon: "spaceWidth (CHR '':'' # rest) = 0"
  unfolding spaceWidth_0_iff
proof (intro ballI notI)
  fix r assume r: "r \<in> set space_runes" and p: "prefix r (CHR '':'' # rest)"
  from space_rune_bytes(1,3) [OF r] p show False
    by (cases r) auto
qed

lemma noSpace_joinColon:
  "list_all (\<lambda>p. CHR '':'' \<notin> set p \<and> noSpace p) paths \<Longrightarrow> noSpace (joinColon paths)"
proof (induction paths rule: joinColon.induct)
  case 1
  then show ?case by simp
next
  case (2 p)
  then show ?case by simp
next
  case (3 p q ps)
  then have "noSpace (CHR '':'' # joinColon (q # ps))"
    by (simp add: spaceWidth_colon)
  with 3 show ?case
    by (simp add: noSpace_append startsClean_simps)
qed

lemma startsClean_sep:
  "list_all (\<lambda>r. r \<in> set space_runes) sep \<Longrightarrow> sep \<noteq> [] \<or> rest = [] \<Longrightarrow>
     startsClean (concat sep @ rest)"
  by (cases sep) (auto simp: startsClean_simps)

lemma FieldsFrom_chunk:
  assumes "chunkOk paths" and "list_all (\<lambda>r. r \<in> set space_runes) sep"
    and "sep \<noteq> [] \<or> rest = []"
  shows "FieldsFrom [] (joinColon paths @ concat sep @ rest) =
           joinColon paths # FieldsFrom [] rest"
proof -
  have n: "noSpace (joinColon paths)" and e: "joinColon paths \<noteq> []"
    using assms(1) by (simp_all add: chunkOk_def noSpace_joinColon)
  have "FieldsFrom [] (joinColon paths @ concat sep @ rest) =
          FieldsFrom (joinColon paths) (concat sep @ rest)"
    using FieldsFrom_noSpace [OF n startsClean_sep [OF assms(2,3)], of "[]"] by simp
  also have "\<dots> = joinColon paths # FieldsFrom [] rest"
    using assms(3) e by (auto simp: FieldsFrom_runes [OF assms(2)] flush_def)
  finally show ?thesis .
qed

lemma Fields_layout:
  assumes "list_all (\<lambda>r. r \<in> set space_runes) lead" and "wellFormed chunks"
  shows "Fields (layout lead chunks) = map (\<lambda>(paths, sep). joinColon paths) chunks"
proof -
  have body: "FieldsFrom [] (concat (map (\<lambda>(paths, sep). joinColon paths @ concat sep) chunks)) =
      map (\<lambda>(paths, sep). joinColon paths) chunks"
    using assms(2)
  proof (induction chunks rule: wellFormed.induct)
    case 1
    then show ?case by simp
  next
    case (2 paths sep)
    then show ?case
      using FieldsFrom_chunk [of paths sep "[]"] by simp
  next
    case (3 paths sep c cs)
    then show ?case
      using FieldsFrom_chunk [of paths sep
          "concat (map (\<lambda>(paths, sep). joinColon paths @ concat sep) (c # cs))"]
      by simp
  qed
  show ?thesis
    unfolding Fields_def layout_def FieldsFrom_runes [OF assms(1)] body
    by (simp add: flush_def)
qed

section \<open>Split takes the paths out of a chunk\<close>

lemma SplitFrom_no_sep:
  "sep \<notin> set p \<Longrightarrow> SplitFrom sep cur (p @ rest) = SplitFrom sep (cur @ p) rest"
  by (induction p arbitrary: cur) auto

lemma Split_joinColon:
  "list_all (\<lambda>p. CHR '':'' \<notin> set p) paths \<Longrightarrow> paths \<noteq> [] \<Longrightarrow>
     Split (joinColon paths) CHR '':'' = paths"
proof (induction paths rule: joinColon.induct)
  case 1
  then show ?case by simp
next
  case (2 p)
  then show ?case
    using SplitFrom_no_sep [of "CHR '':''" p "[]" "[]"] by (simp add: Split_def)
next
  case (3 p q ps)
  then show ?case
    using SplitFrom_no_sep [of "CHR '':''" p "[]" "CHR '':'' # joinColon (q # ps)"]
    by (simp add: Split_def)
qed

lemma Split_chunk: "chunkOk paths \<Longrightarrow> Split (joinColon paths) CHR '':'' = paths"
proof -
  assume c: "chunkOk paths"
  then have "paths \<noteq> []" by (auto simp: chunkOk_def)
  moreover from c have "list_all (\<lambda>p. CHR '':'' \<notin> set p) paths"
    by (simp add: chunkOk_def list_all_iff)
  ultimately show ?thesis by (rule Split_joinColon [rotated])
qed

lemma wellFormed_chunkOk: "wellFormed chunks \<Longrightarrow> list_all (\<lambda>(paths, sep). chunkOk paths) chunks"
  by (induction chunks rule: wellFormed.induct) simp_all

section \<open>The loops\<close>

lemma foldl_files:
  "foldl (\<lambda>args file. args @ [''-f'', file]) acc files =
     acc @ concat (map (\<lambda>file. [''-f'', file]) files)"
  by (induction files arbitrary: acc) simp_all

lemma foldl_chunks:
  "foldl (\<lambda>args chunk. foldl (\<lambda>args file. args @ [''-f'', file]) args (Split chunk CHR '':''))
     acc chunks =
   acc @ concat (map (\<lambda>chunk. concat (map (\<lambda>file. [''-f'', file]) (Split chunk CHR '':'')))
            chunks)"
  by (induction chunks arbitrary: acc) (simp_all add: foldl_files)

lemma composeFileArgs_layout:
  assumes "list_all (\<lambda>r. r \<in> set space_runes) lead" and "wellFormed chunks"
  shows "composeFileArgs (layout lead chunks) =
           concat (map (\<lambda>path. [''-f'', path]) (concat (map fst chunks)))"
proof -
  have "list_all (\<lambda>(paths, sep). chunkOk paths) chunks"
    using assms(2) by (rule wellFormed_chunkOk)
  then have "concat (map (\<lambda>chunk. concat (map (\<lambda>file. [''-f'', file]) (Split chunk CHR '':'')))
                 (map (\<lambda>(paths, sep). joinColon paths) chunks)) =
             concat (map (\<lambda>path. [''-f'', path]) (concat (map fst chunks)))"
    by (induction chunks) (auto simp: Split_chunk)
  then show ?thesis
    by (simp add: composeFileArgs_def Fields_layout [OF assms] foldl_chunks)
qed

text \<open>
  Claim C2. When \<^verbatim>\<open>BUILDKITE_DOCKER_COMPOSE_FILE\<close> holds a non-empty value laid out as
  chunks separated by white space, each chunk made of paths separated by colons,
  \<^verbatim>\<open>runDockerCompose\<close> passes exactly the paths of all chunks, flattened in their order,
  each after a \<^verbatim>\<open>-f\<close>, and no default file; these pairs come first, then \<^verbatim>\<open>-p\<close> with the
  project name, \<^verbatim>\<open>--verbose\<close> in debug mode, and the command's own arguments. When the
  variable is unset or empty the only pair is \<^verbatim>\<open>-f docker-compose.yml\<close>.
\<close>

theorem compose_file_pairs:
  "(Env sh ''BUILDKITE_DOCKER_COMPOSE_FILE'' = Some (layout lead chunks) \<and>
    layout lead chunks \<noteq> [] \<and>
    list_all (\<lambda>r. r \<in> set space_runes) lead \<and> wellFormed chunks \<longrightarrow>
    Commands (snd (runDockerCompose ex sh projectName commandArgs)) =
      Commands sh @
      [''docker-compose'' #
       concat (map (\<lambda>path. [''-f'', path]) (concat (map fst chunks))) @
       [''-p'', projectName] @
       (if EnvGetBool ex sh ''BUILDKITE_AGENT_DEBUG'' False then [''--verbose''] else []) @
       commandArgs]) \<and>
   (Env sh ''BUILDKITE_DOCKER_COMPOSE_FILE'' = None \<or>
    Env sh ''BUILDKITE_DOCKER_COMPOSE_FILE'' = Some [] \<longrightarrow>
    Commands (snd (runDockerCompose ex sh projectName commandArgs)) =
      Commands sh @
      [''docker-compose'' #
       [''-f'', ''docker-compose.yml''] @
       [''-p'', projectName] @
       (if EnvGetBool ex sh ''BUILDKITE_AGENT_DEBUG'' False then [''--verbose''] else []) @
       commandArgs])"
  by (auto simp: runDockerCompose_Commands composeArgs_def EnvGet_def composeFileArgs_layout
      default_file_args)

theorem compose_file_pairs_witness:
  "Env composeFiles ''BUILDKITE_DOCKER_COMPOSE_FILE'' =
     Some (layout ['' ''] [([''a.yml'', ''b.yml''], ['' '', '' '']), ([''c.yml''], [])]) \<and>
   Commands (snd (runDockerCompose exampleExecutor composeFiles ''buildkite42'' [''build''])) =
     [[''docker-compose'', ''-f'', ''a.yml'', ''-f'', ''b.yml'', ''-f'', ''c.yml'',
       ''-p'', ''buildkite42'', ''build'']] \<and>
   Env noVariables ''BUILDKITE_DOCKER_COMPOSE_FILE'' = None \<and>
   Commands (snd (runDockerCompose exampleExecutor noVariables ''buildkite42'' [''build''])) =
     [[''docker-compose'', ''-f'', ''docker-compose.yml'', ''-p'', ''buildkite42'', ''build'']]"
proof -
  let ?lead = "['' '']"
  let ?chunks = "[([''a.yml'', ''b.yml''], ['' '', '' '']), ([''c.yml''], [])]"
  have v: "layout ?lead ?chunks = '' a.yml:b.yml  c.yml''"
    by (simp add: layout_def)
  have h1: "Env composeFiles ''BUILDKITE_DOCKER_COMPOSE_FILE'' = Some (layout ?lead ?chunks)"
    unfolding v by (simp add: composeFiles_def exampleShell_def)
  have h2: "layout ?lead ?chunks \<noteq> []"
    unfolding v by simp
  have h3: "list_all (\<lambda>r. r \<in> set space_runes) ?lead"
    by (simp add: space_runes_def)
  have h4: "wellFormed ?chunks"
    by (simp add: chunkOk_def spaceWidth_def space_runes_def)
  have d: "\<not> EnvGetBool exampleExecutor composeFiles ''BUILDKITE_AGENT_DEBUG'' False"
    "\<not> EnvGetBool exampleExecutor noVariables ''BUILDKITE_AGENT_DEBUG'' False"
    by (simp_all add: EnvGetBool_def exampleExecutor_def composeFiles_def noVariables_def
        exampleShell_def)
  have c: "Commands composeFiles = []" "Commands noVariables = []"
    by (simp_all add: composeFiles_def noVariables_def exampleShell_def)
  have n: "Env noVariables ''BUILDKITE_DOCKER_COMPOSE_FILE'' = None"
    by (simp add: noVariables_def exampleShell_def)
  have 1: "Commands (snd (runDockerCompose exampleExecutor composeFiles ''buildkite42''
                            [''build''])) =
     [[''docker-compose'', ''-f'', ''a.yml'', ''-f'', ''b.yml'', ''-f'', ''c.yml'',
       ''-p'', ''buildkite42'', ''build'']]"
    using compose_file_pairs [of composeFiles ?lead ?chunks exampleExecutor "''buildkite42''"
        "[''build'']"] h1 h2 h3 h4 d(1) c(1)
    by simp
  have 2: "Commands (snd (runDockerCompose exampleExecutor noVariables ''buildkite42''
                            [''build''])) =
     [[''docker-compose'', ''-f'', ''docker-compose.yml'', ''-p'', ''buildkite42'', ''build'']]"
    using compose_file_pairs [of noVariables "[]" "[]" exampleExecutor "''buildkite42''"
        "[''build'']"] n d(2) c(2)
    by simp
  from h1 1 n 2 show ?thesis by simp
qed

section \<open>Teardown\<close>

text \<open>
  Claim C5. When \<^verbatim>\<open>DOCKER_CONTAINER\<close> holds a container name \<open>c\<close>, teardown runs one
  external command and no other, \<^verbatim>\<open>docker rm -f -v c\<close>, and returns what that command
  returned, its failure included.
\<close>

theorem teardown_docker:
  assumes "Env sh ''DOCKER_CONTAINER'' = Some c"
  shows "Commands (snd (tearDownDeprecatedDockerIntegration ex sh)) =
           Commands sh @ [[''docker'', ''rm'', ''-f'', ''-v'', c]] \<and>
         fst (tearDownDeprecatedDockerIntegration ex sh) =
           RunResult ex (Printf sh ''~~~ Cleaning up Docker containers'')
             [''docker'', ''rm'', ''-f'', ''-v'', c]"
  using assms
  by (simp add: tearDownDeprecatedDockerIntegration_def EnvGet_def Let_def andThen_Commands
      andThen_fst Run_fst Commands_proj)

theorem teardown_docker_witness:
  "Env (exampleShell [''DOCKER_CONTAINER'' \<mapsto> ''buildkite_42_container''])
       ''DOCKER_CONTAINER'' = Some ''buildkite_42_container'' \<and>
   Commands (snd (tearDownDeprecatedDockerIntegration exampleExecutor
       (exampleShell [''DOCKER_CONTAINER'' \<mapsto> ''buildkite_42_container'']))) =
     [[''docker'', ''rm'', ''-f'', ''-v'', ''buildkite_42_container'']]"
proof -
  have h: "Env (exampleShell [''DOCKER_CONTAINER'' \<mapsto> ''buildkite_42_container''])
             ''DOCKER_CONTAINER'' = Some ''buildkite_42_container''"
    by (simp add: exampleShell_def)
  have c: "Commands (exampleShell [''DOCKER_CONTAINER'' \<mapsto> ''buildkite_42_container'']) = []"
    by (simp add: exampleShell_def)
  from teardown_docker [OF h, of exampleExecutor] h c show ?thesis
    by simp
qed

text \<open>
  Claim C4. When \<^verbatim>\<open>COMPOSE_PROJ_NAME\<close> is set and \<^verbatim>\<open>DOCKER_CONTAINER\<close> is not, teardown
  runs three \<^verbatim>\<open>docker-compose\<close> commands: \<^verbatim>\<open>kill\<close>, then \<^verbatim>\<open>rm --force --all\<close> with
  \<^verbatim>\<open>-v\<close> added exactly when \<^verbatim>\<open>BUILDKITE_DOCKER_COMPOSE_LEAVE_VOLUMES\<close> reads false, then
  \<^verbatim>\<open>down\<close>. What teardown returns is what the executor returns for \<^verbatim>\<open>down\<close>, in the
  state after the first two commands; the results of \<^verbatim>\<open>kill\<close> and \<^verbatim>\<open>rm\<close> are not in it.
\<close>

theorem teardown_compose:
  assumes "Env sh ''DOCKER_CONTAINER'' = None" and "Env sh ''COMPOSE_PROJ_NAME'' = Some p"
  shows "Commands (snd (tearDownDeprecatedDockerIntegration ex sh)) =
           Commands sh @
           [''docker-compose'' # composeArgs ex sh p [''kill''],
            ''docker-compose'' # composeArgs ex sh p
               ([''rm'', ''--force'', ''--all''] @
                (if EnvGetBool ex sh ''BUILDKITE_DOCKER_COMPOSE_LEAVE_VOLUMES'' False
                 then [] else [''-v''])),
            ''docker-compose'' # composeArgs ex sh p [''down'']] \<and>
         fst (tearDownDeprecatedDockerIntegration ex sh) =
           RunResult ex
             (snd (Run ex
                (snd (Run ex (Printf sh ''~~~ Cleaning up Docker containers'')
                        (''docker-compose'' # composeArgs ex sh p [''kill''])))
                (''docker-compose'' # composeArgs ex sh p
                   ([''rm'', ''--force'', ''--all''] @
                    (if EnvGetBool ex sh ''BUILDKITE_DOCKER_COMPOSE_LEAVE_VOLUMES'' False
                     then [] else [''-v''])))))
             (''docker-compose'' # composeArgs ex sh p [''down''])"
  using assms
  by (simp add: tearDownDeprecatedDockerIntegration_def EnvGet_def Let_def runDockerCompose_def
      Run_fst Commands_proj composeArgs_proj EnvGetBool_proj)

theorem teardown_compose_witness:
  "Env (exampleShell [''COMPOSE_PROJ_NAME'' \<mapsto> ''buildkite42'']) ''DOCKER_CONTAINER'' = None \<and>
   Env (exampleShell [''COMPOSE_PROJ_NAME'' \<mapsto> ''buildkite42'']) ''COMPOSE_PROJ_NAME'' =
     Some ''buildkite42'' \<and>
   Commands (snd (tearDownDeprecatedDockerIntegration exampleExecutor
       (exampleShell [''COMPOSE_PROJ_NAME'' \<mapsto> ''buildkite42'']))) =
     [[''docker-compose'', ''-f'', ''docker-compose.yml'', ''-p'', ''buildkite42'', ''kill''],
      [''docker-compose'', ''-f'', ''docker-compose.yml'', ''-p'', ''buildkite42'',
       ''rm'', ''--force'', ''--all'', ''-v''],
      [''docker-compose'', ''-f'', ''docker-compose.yml'', ''-p'', ''buildkite42'', ''down'']] \<and>
   fst (tearDownDeprecatedDockerIntegration exampleExecutor
       (exampleShell [''COMPOSE_PROJ_NAME'' \<mapsto> ''buildkite42''])) = Some ''exit status 1''"
proof -
  let ?sh = "exampleShell [''COMPOSE_PROJ_NAME'' \<mapsto> ''buildkite42'']"
  have h1: "Env ?sh ''DOCKER_CONTAINER'' = None"
    by (simp add: exampleShell_def)
  have h2: "Env ?sh ''COMPOSE_PROJ_NAME'' = Some ''buildkite42''"
    by (simp add: exampleShell_def)
  have c: "Commands ?sh = []"
    by (simp add: exampleShell_def)
  have b: "\<not> EnvGetBool exampleExecutor ?sh ''BUILDKITE_DOCKER_COMPOSE_LEAVE_VOLUMES'' False"
    by (simp add: EnvGetBool_def exampleExecutor_def exampleShell_def)
  have a: "\<And>xs. composeArgs exampleExecutor ?sh ''buildkite42'' xs =
             [''-f'', ''docker-compose.yml'', ''-p'', ''buildkite42''] @ xs"
    by (simp add: composeArgs_def EnvGet_def EnvGetBool_def exampleExecutor_def exampleShell_def
        default_file_args)
  have r: "\<And>s. RunResult exampleExecutor s
             [''docker-compose'', ''-f'', ''docker-compose.yml'', ''-p'', ''buildkite42'', ''down'']
           = Some ''exit status 1''"
    by (simp add: exampleExecutor_def)
  from teardown_compose [OF h1 h2, of exampleExecutor] show ?thesis
    unfolding a by (simp add: h1 h2 c b r)
qed

end
